theory Spec2Isabelle
  imports Complex_Main "HOL-Library.Word"
begin

unbundle bit_operations_syntax

section \<open>The SNTP server of \<^verbatim>\<open>sntp_server.py\<close>\<close>

text \<open>
  The model follows the source function by function. Conventions:
  \<^item> a datagram is a list of bytes (\<open>8 word\<close>); Python's unbounded integers are \<open>int\<close>;
  \<^item> a Python \<open>float\<close> is modelled as a \<open>real\<close>, with exact arithmetic. The two
    operations \<open>format_time\<close> performs on a float (scaling by the power of two \<open>2 ** 32\<close>
    and \<open>int(...)\<close>) are exact on floats; the additions of the epoch offset and of the
    delay are taken as exact (Python rounds \<open>time() + TIME_OFFSET\<close> to the nearest float,
    a multiple of \<open>2\<^sup>-\<^sup>2\<^sup>1\<close> for a clock reading \<open>time() \<ge> 0\<close>; adding the integer delay to
    that float is exact when the sum is in the range from 0 to \<open>2 ^ 32\<close>); \<open>inf\<close>, \<open>nan\<close>
    and the \<open>OverflowError\<close> of adding an integer beyond the float range are not
    modelled;
  \<^item> every call of \<open>time()\<close> is a parameter of the function that makes it;
  \<^item> \<open>struct.pack\<close> raises \<open>struct.error\<close> on a value outside the range of its format
    code: the model returns \<open>Inl StructError\<close> there;
  \<^item> the two endless loops (\<open>receive_request\<close>, \<open>reply_to_request\<close>) are modelled by
    their body on one datagram, respectively one queue entry. The queue and the threads
    are not modelled.
\<close>

subsection \<open>Bytes and \<^verbatim>\<open>struct.pack\<close>\<close>

type_synonym byte = "8 word"

datatype error = StructError

text \<open>\<^verbatim>\<open>int.from_bytes(bs, 'big')\<close>\<close>

definition from_bytes_big :: "byte list \<Rightarrow> int" where
  "from_bytes_big bs = foldl (\<lambda>acc b. acc * 256 + uint b) 0 bs"

text \<open>The \<open>n\<close> bytes of a value, most significant first.\<close>

fun be_bytes :: "nat \<Rightarrow> int \<Rightarrow> byte list" where
  "be_bytes 0 v = []"
| "be_bytes (Suc n) v = be_bytes n (v div 256) @ [word_of_int (v mod 256)]"

text \<open>The format codes used by the program: \<open>B\<close>, \<open>b\<close>, \<open>I\<close> and \<open>Q\<close>.\<close>

datatype fmt = UByte | SByte | UInt | ULongLong

fun pack_one :: "fmt \<Rightarrow> int \<Rightarrow> error + byte list" where
  "pack_one UByte v = (if 0 \<le> v \<and> v < 2 ^ 8 then Inr (be_bytes 1 v) else Inl StructError)"
| "pack_one SByte v = (if - (2 ^ 7) \<le> v \<and> v < 2 ^ 7 then Inr (be_bytes 1 v) else Inl StructError)"
| "pack_one UInt v = (if 0 \<le> v \<and> v < 2 ^ 32 then Inr (be_bytes 4 v) else Inl StructError)"
| "pack_one ULongLong v = (if 0 \<le> v \<and> v < 2 ^ 64 then Inr (be_bytes 8 v) else Inl StructError)"

text \<open>
  \<^verbatim>\<open>struct.pack\<close> in big-endian mode (\<^verbatim>\<open>>\<close>): no padding, one value per code, and
  \<open>struct.error\<close> too when the number of values is not the number of codes.
\<close>

fun struct_pack :: "fmt list \<Rightarrow> int list \<Rightarrow> error + byte list" where
  "struct_pack [] [] = Inr []"
| "struct_pack (f # fs) (v # vs) =
     (case pack_one f v of
        Inl e \<Rightarrow> Inl e
      | Inr bs \<Rightarrow> (case struct_pack fs vs of Inl e \<Rightarrow> Inl e | Inr cs \<Rightarrow> Inr (bs @ cs)))"
| "struct_pack _ _ = Inl StructError"

text \<open>The format string \<^verbatim>\<open>'>3Bb5I3Q'\<close>.\<close>

definition fmt_3Bb5I3Q :: "fmt list" where
  "fmt_3Bb5I3Q = [UByte, UByte, UByte, SByte, UInt, UInt, UInt, UInt, UInt,
                  ULongLong, ULongLong, ULongLong]"

subsection \<open>\<^verbatim>\<open>SNTPMessage\<close>\<close>

text \<open>
  \<^verbatim>\<open>TIME_OFFSET = (date(1970, 1, 1) - date(1900, 1, 1)).days * 24 * 3600\<close>: the 70 years
  between the two dates hold 17 leap days, that is \<open>70 * 365 + 17 = 25567\<close> days.
\<close>

definition TIME_OFFSET :: int where
  "TIME_OFFSET = 25567 * 24 * 3600"

record SNTPMessage =
  correct :: bool
  raw :: "byte list"
  time_offset :: int
  leap_indicator :: int
  version :: int
  mode :: int
  stratum :: int
  poll :: int
  precision :: int
  root_delay :: int
  root_dispersion :: int
  ref_id :: int
  ref_time :: int
  originate_time :: int
  receive_time :: real
  transmit_time :: int

text \<open>The constructor \<^verbatim>\<open>SNTPMessage.__init__\<close>, all its arguments given.\<close>

definition SNTPMessage_init :: "bool \<Rightarrow> int \<Rightarrow> int \<Rightarrow> int \<Rightarrow> real \<Rightarrow> SNTPMessage" where
  "SNTPMessage_init is_correct ver mo orig recv =
     \<lparr> correct = is_correct, raw = [], time_offset = 0, leap_indicator = 0,
       version = ver, mode = mo, stratum = 0, poll = 0, precision = 0,
       root_delay = 0, root_dispersion = 0, ref_id = 0, ref_time = 0,
       originate_time = orig, receive_time = recv, transmit_time = 0 \<rparr>"

text \<open>Python's \<^verbatim>\<open>int(x)\<close> on a float: the integer part, rounding towards zero.\<close>

definition py_int :: "real \<Rightarrow> int" where
  "py_int x = (if x < 0 then - \<lfloor>- x\<rfloor> else \<lfloor>x\<rfloor>)"

definition format_time :: "real \<Rightarrow> int" where
  "format_time raw_time = py_int (raw_time * 2 ^ 32)"

text \<open>\<^verbatim>\<open>get_reply\<close>; \<open>now\<close> is the value of its call of \<open>time()\<close>.\<close>

definition get_reply :: "SNTPMessage \<Rightarrow> real \<Rightarrow> error + byte list" where
  "get_reply m now =
     (let first = push_bit 6 (leap_indicator m) OR push_bit 3 (version m) OR mode m;
          receive_time' = format_time (receive_time m + of_int (time_offset m));
          transmit_time' = format_time (now + of_int TIME_OFFSET + of_int (time_offset m))
      in struct_pack fmt_3Bb5I3Q
           [first, stratum m, poll m, precision m, 0, 0, 0, 0, 0,
            originate_time m, receive_time', transmit_time'])"

subsection \<open>\<^verbatim>\<open>Server\<close>\<close>

text \<open>
  \<^verbatim>\<open>format_request\<close>; \<open>now\<close> is the value of its call of \<open>time()\<close>, made for a
  request of mode 3 only. The result \<open>None\<close> is Python's \<open>None\<close>.
\<close>

definition format_request :: "real \<Rightarrow> byte list \<Rightarrow> SNTPMessage option" where
  "format_request now data =
     (if length data < 48 then Some (SNTPMessage_init False 3 3 0 0)
      else
        let ver = drop_bit 3 (uint (data ! 0) AND 56);
            mo = uint (data ! 0) AND 7;
            orig = from_bytes_big (take 8 (drop 40 data))
        in if mo \<noteq> 3 then None
           else Some (SNTPMessage_init True ver 4 orig (now + of_int TIME_OFFSET)))"

text \<open>
  The body of \<^verbatim>\<open>receive_request\<close> on one datagram: the entry it puts on the queue.
  \<^verbatim>\<open>recvfrom(1024)\<close> keeps the first 1024 bytes of a longer datagram.
\<close>

definition receive_request :: "real \<Rightarrow> byte list \<times> 'a \<Rightarrow> SNTPMessage option \<times> 'a" where
  "receive_request now dgram = (format_request now (take 1024 (fst dgram)), snd dgram)"

text \<open>
  The body of \<^verbatim>\<open>reply_to_request\<close> on one queue entry: the datagram it sends and its
  destination, \<open>None\<close> when it sends nothing, \<open>Inl\<close> when \<open>get_reply\<close> raises. An
  \<open>SNTPMessage\<close> object is true in Python (the class defines neither \<open>__bool__\<close> nor
  \<open>__len__\<close>), so the test \<^verbatim>\<open>if sntp_message:\<close> fails for \<open>None\<close> only.
\<close>

definition reply_to_request ::
  "int \<Rightarrow> real \<Rightarrow> SNTPMessage option \<times> 'a \<Rightarrow> error + (byte list \<times> 'a) option" where
  "reply_to_request time_delay now entry =
     (case fst entry of
        None \<Rightarrow> Inr None
      | Some sntp_message \<Rightarrow>
          (case get_reply (sntp_message\<lparr>time_offset := time_delay\<rparr>) now of
             Inl e \<Rightarrow> Inl e
           | Inr reply \<Rightarrow> Inr (Some (reply, snd entry))))"

text \<open>
  One datagram through the server: received at clock reading \<open>arrival\<close>, answered by a
  worker at clock reading \<open>send\<close>.
\<close>

definition serve ::
  "int \<Rightarrow> real \<Rightarrow> real \<Rightarrow> byte list \<times> 'a \<Rightarrow> error + (byte list \<times> 'a) option" where
  "serve time_delay arrival send dgram =
     reply_to_request time_delay send (receive_request arrival dgram)"

subsection \<open>Ranges of the packed values\<close>

text \<open>
  The reply of \<open>get_reply\<close> exists when each value handed to \<^verbatim>\<open>struct.pack\<close> is in the
  range of its format code; \<open>packable\<close> says so for a message and a clock reading.
\<close>

definition packable :: "SNTPMessage \<Rightarrow> real \<Rightarrow> bool" where
  "packable m now \<longleftrightarrow>
     (0 \<le> (push_bit 6 (leap_indicator m) OR push_bit 3 (version m) OR mode m) \<and>
      (push_bit 6 (leap_indicator m) OR push_bit 3 (version m) OR mode m) < 256) \<and>
     (0 \<le> stratum m \<and> stratum m < 256) \<and>
     (0 \<le> poll m \<and> poll m < 256) \<and>
     (- 128 \<le> precision m \<and> precision m < 128) \<and>
     (0 \<le> originate_time m \<and> originate_time m < 2 ^ 64) \<and>
     (0 \<le> format_time (receive_time m + of_int (time_offset m)) \<and>
      format_time (receive_time m + of_int (time_offset m)) < 2 ^ 64) \<and>
     (0 \<le> format_time (now + of_int TIME_OFFSET + of_int (time_offset m)) \<and>
      format_time (now + of_int TIME_OFFSET + of_int (time_offset m)) < 2 ^ 64)"

text \<open>
  The timestamp of the clock reading \<open>t\<close> under the delay \<open>time_delay\<close>, and whether it
  is in the range of the format code \<open>Q\<close>.
\<close>

definition stamp :: "int \<Rightarrow> real \<Rightarrow> int" where
  "stamp time_delay t = format_time (t + of_int TIME_OFFSET + of_int time_delay)"

definition stamp_ok :: "int \<Rightarrow> real \<Rightarrow> bool" where
  "stamp_ok time_delay t \<longleftrightarrow> 0 \<le> stamp time_delay t \<and> stamp time_delay t < 2 ^ 64"

section \<open>Facts about the model\<close>

subsection \<open>Big-endian bytes\<close>

lemma length_be_bytes: "length (be_bytes n v) = n"
  by (induction n arbitrary: v) simp_all

lemma from_bytes_big_snoc: "from_bytes_big (bs @ [b]) = from_bytes_big bs * 256 + uint b"
  by (simp add: from_bytes_big_def)

lemma from_bytes_big_be_bytes:
  "0 \<le> v \<Longrightarrow> v < 256 ^ n \<Longrightarrow> from_bytes_big (be_bytes n v) = v"
proof (induction n arbitrary: v)
  case 0
  then show ?case by (simp add: from_bytes_big_def)
next
  case (Suc n)
  have "0 \<le> v div 256"
    using Suc.prems by simp
  moreover have "v div 256 < 256 ^ n"
    using Suc.prems by (simp add: div_less_iff_less_mult mult.commute)
  ultimately have "from_bytes_big (be_bytes n (v div 256)) = v div 256"
    by (rule Suc.IH)
  then show ?case
    by (simp add: from_bytes_big_snoc uint_word_of_int)
qed

lemma be_bytes_zero: "be_bytes n 0 = replicate n 0"
  by (induction n) (simp_all add: replicate_append_same)

lemma word_of_int_mod_256: "(word_of_int (v mod 256) :: byte) = word_of_int v"
  by (simp add: word_of_int_eq_iff take_bit_eq_mod)

lemma be_bytes_Suc0: "be_bytes (Suc 0) v = [word_of_int v]"
  by (simp add: word_of_int_mod_256)

subsection \<open>Truncation\<close>


lemma py_int_close: "\<bar>of_int (py_int x) - x\<bar> < 1"
  unfolding py_int_def by (simp; linarith)

lemma py_int_of_int: "py_int (of_int k) = k"
  by (simp add: py_int_def)

lemma format_time_of_int: "format_time (of_int k) = k * 2 ^ 32"
proof -
  have "(of_int k :: real) * 2 ^ 32 = of_int (k * 2 ^ 32)"
    by simp
  then show ?thesis
    unfolding format_time_def by (simp only: py_int_of_int)
qed

subsection \<open>The frame of \<open>get_reply\<close>\<close>

lemma replicate_20:
  "replicate 4 x @ replicate 4 x @ replicate 4 x @ replicate 4 x @ replicate 4 x @ ys
     = replicate 20 x @ ys"
  by (simp flip: replicate_add append_assoc)

lemma error_eq: "(e :: error) = StructError"
  by (cases e)

lemma struct_pack_frame_ok:
  assumes "0 \<le> a \<and> a < 256" "0 \<le> b \<and> b < 256" "0 \<le> c \<and> c < 256"
    "- 128 \<le> d \<and> d < 128"
    "0 \<le> x \<and> x < 2 ^ 64" "0 \<le> y \<and> y < 2 ^ 64" "0 \<le> z \<and> z < 2 ^ 64"
  shows "struct_pack fmt_3Bb5I3Q [a, b, c, d, 0, 0, 0, 0, 0, x, y, z] =
     Inr ([word_of_int a, word_of_int b, word_of_int c, word_of_int d] @ replicate 20 0 @
          be_bytes 8 x @ be_bytes 8 y @ be_bytes 8 z)"
  using assms
  by (simp add: fmt_3Bb5I3Q_def be_bytes_Suc0 be_bytes_zero replicate_20 del: be_bytes.simps)

lemma struct_pack_frame_err:
  assumes "\<not> ((0 \<le> a \<and> a < 256) \<and> (0 \<le> b \<and> b < 256) \<and> (0 \<le> c \<and> c < 256) \<and>
    (- 128 \<le> d \<and> d < 128) \<and>
    (0 \<le> x \<and> x < 2 ^ 64) \<and> (0 \<le> y \<and> y < 2 ^ 64) \<and> (0 \<le> z \<and> z < 2 ^ 64))"
  shows "struct_pack fmt_3Bb5I3Q [a, b, c, d, 0, 0, 0, 0, 0, x, y, z] = Inl StructError"
  using assms
  by (auto simp add: fmt_3Bb5I3Q_def error_eq simp del: be_bytes.simps split: sum.splits)

subsection \<open>\<open>get_reply\<close> and \<open>format_request\<close>\<close>

lemma get_reply_packable:
  assumes "packable m now"
  shows "get_reply m now =
     Inr ([word_of_int (push_bit 6 (leap_indicator m) OR push_bit 3 (version m) OR mode m),
           word_of_int (stratum m), word_of_int (poll m), word_of_int (precision m)] @
          replicate 20 0 @ be_bytes 8 (originate_time m) @
          be_bytes 8 (format_time (receive_time m + of_int (time_offset m))) @
          be_bytes 8 (format_time (now + of_int TIME_OFFSET + of_int (time_offset m))))"
  using assms unfolding packable_def get_reply_def Let_def
  by (intro struct_pack_frame_ok) simp_all

lemma get_reply_not_packable:
  assumes "\<not> packable m now"
  shows "get_reply m now = Inl StructError"
  using assms unfolding packable_def get_reply_def Let_def
  by (intro struct_pack_frame_err) simp

lemma frame_slices:
  assumes "length X = 8" "length Y = 8" "length Z = 8"
  shows "length ([a, b, c, d] @ replicate 20 0 @ X @ Y @ Z) = 48"
    and "([a, b, c, d] @ replicate 20 0 @ X @ Y @ Z) ! 0 = a"
    and "([a, b, c, d] @ replicate 20 0 @ X @ Y @ Z) ! 1 = b"
    and "([a, b, c, d] @ replicate 20 0 @ X @ Y @ Z) ! 2 = c"
    and "([a, b, c, d] @ replicate 20 0 @ X @ Y @ Z) ! 3 = d"
    and "take 20 (drop 4 ([a, b, c, d] @ replicate 20 0 @ X @ Y @ Z)) = replicate 20 0"
    and "take 8 (drop 24 ([a, b, c, d] @ replicate 20 0 @ X @ Y @ Z)) = X"
    and "take 8 (drop 32 ([a, b, c, d] @ replicate 20 0 @ X @ Y @ Z)) = Y"
    and "take 8 (drop 40 ([a, b, c, d] @ replicate 20 0 @ X @ Y @ Z)) = Z"
  using assms by simp_all

lemma from_bytes_big_bounds: "0 \<le> from_bytes_big bs \<and> from_bytes_big bs < 256 ^ length bs"
proof (induction bs rule: rev_induct)
  case Nil
  show ?case by (simp add: from_bytes_big_def)
next
  case (snoc b bs)
  have "0 \<le> uint b" "uint b < 256"
    using uint_bounded [of b] by simp_all
  with snoc show ?case
    by (simp add: from_bytes_big_snoc)
qed

lemma be_bytes_from_bytes_big: "be_bytes (length bs) (from_bytes_big bs) = bs"
proof (induction bs rule: rev_induct)
  case Nil
  show ?case by simp
next
  case (snoc b bs)
  have b: "0 \<le> uint b" "uint b < 256"
    using uint_bounded [of b] by simp_all
  then have "(from_bytes_big bs * 256 + uint b) div 256 = from_bytes_big bs"
    "(from_bytes_big bs * 256 + uint b) mod 256 = uint b"
    by simp_all
  with snoc show ?case
    by (simp add: from_bytes_big_snoc)
qed



lemma version_bounds:
  fixes w :: byte
  shows "0 \<le> drop_bit 3 (uint w AND 56)" and "drop_bit 3 (uint w AND 56) < 8"
proof -
  have "0 \<le> uint w AND 56"
    by simp
  moreover have "uint w AND 56 \<le> 56"
    by (rule AND_upper2) simp
  ultimately have "0 \<le> (uint w AND 56) div 8 \<and> (uint w AND 56) div 8 < 8"
    by arith
  then show "0 \<le> drop_bit 3 (uint w AND 56)" and "drop_bit 3 (uint w AND 56) < 8"
    by (simp_all add: drop_bit_eq_div)
qed

lemma first_byte_facts:
  fixes v :: int
  assumes "0 \<le> v" "v < 8"
  shows "push_bit 6 0 OR push_bit 3 v OR 4 = 8 * v + 4"
    and "(8 * v + 4) AND 7 = 4"
    and "drop_bit 3 (8 * v + 4) AND 7 = v"
proof -
  have "v \<in> {0, 1, 2, 3, 4, 5, 6, 7}"
    using assms by auto
  then show "push_bit 6 0 OR push_bit 3 v OR 4 = 8 * v + 4"
    and "(8 * v + 4) AND 7 = 4"
    and "drop_bit 3 (8 * v + 4) AND 7 = v"
    by auto
qed

lemma format_request_short:
  "length data < 48 \<Longrightarrow> format_request now data = Some (SNTPMessage_init False 3 3 0 0)"
  by (simp add: format_request_def)

lemma format_request_other_mode:
  "48 \<le> length data \<Longrightarrow> uint (data ! 0) AND 7 \<noteq> 3 \<Longrightarrow> format_request now data = None"
  by (simp add: format_request_def)

lemma format_request_client_mode:
  "48 \<le> length data \<Longrightarrow> uint (data ! 0) AND 7 = 3 \<Longrightarrow>
   format_request now data =
     Some (SNTPMessage_init True (drop_bit 3 (uint (data ! 0) AND 56)) 4
            (from_bytes_big (take 8 (drop 40 data))) (now + of_int TIME_OFFSET))"
  by (simp add: format_request_def)

lemma format_request_take_1024: "format_request now (take 1024 data) = format_request now data"
proof (cases "length data < 48")
  case True
  then show ?thesis by (simp add: format_request_def)
next
  case False
  then have "take 8 (drop 40 (take 1024 data)) = take 8 (drop 40 data)"
    by (simp add: drop_take)
  moreover have "take 1024 data ! 0 = data ! 0"
    by simp
  moreover have "\<not> length (take 1024 data) < 48"
    using False by simp
  ultimately show ?thesis
    using False by (simp add: format_request_def)
qed

subsection \<open>One datagram through the server\<close>

lemma packable_client_mode_gen:
  assumes v: "0 \<le> v" "v < 8" and x: "0 \<le> x" "x < 2 ^ 64"
  shows "packable ((SNTPMessage_init True v 4 x (arrival + of_int TIME_OFFSET))\<lparr>time_offset := D\<rparr>) send
         \<longleftrightarrow> stamp_ok D arrival \<and> stamp_ok D send"
proof -
  have "push_bit 6 0 OR push_bit 3 v OR 4 = 8 * v + 4"
    using v by (rule first_byte_facts)
  then have f: "push_bit 3 v OR 4 = 8 * v + 4"
    by simp
  show ?thesis
    using v x unfolding packable_def stamp_ok_def stamp_def
    by (simp add: SNTPMessage_init_def f)
qed

lemma originate_bounds:
  "0 \<le> from_bytes_big (take 8 (drop 40 data))"
  "from_bytes_big (take 8 (drop 40 data)) < 2 ^ 64"
proof -
  let ?bs = "take 8 (drop 40 data)"
  have "length ?bs \<le> 8" by simp
  then have "(256::int) ^ length ?bs \<le> 256 ^ 8"
    by (intro power_increasing) simp_all
  with from_bytes_big_bounds [of ?bs]
  show "0 \<le> from_bytes_big ?bs" "from_bytes_big ?bs < 2 ^ 64"
    by simp_all
qed

lemma packable_short:
  "packable ((SNTPMessage_init False 3 3 0 0)\<lparr>time_offset := D\<rparr>) send
     \<longleftrightarrow> (0 \<le> D \<and> D < 2 ^ 32) \<and> stamp_ok D send"
  unfolding packable_def stamp_ok_def stamp_def
  by (simp add: SNTPMessage_init_def format_time_of_int)


lemma get_reply_client_mode:
  assumes v: "0 \<le> v" "v < 8" and x: "0 \<le> x" "x < 2 ^ 64"
  shows "get_reply ((SNTPMessage_init True v 4 x (arrival + of_int TIME_OFFSET))\<lparr>time_offset := D\<rparr>) send =
     (if stamp_ok D arrival \<and> stamp_ok D send
      then Inr ([word_of_int (8 * v + 4), 0, 0, 0] @ replicate 20 0 @ be_bytes 8 x @
                be_bytes 8 (stamp D arrival) @ be_bytes 8 (stamp D send))
      else Inl StructError)"
proof -
  let ?m = "(SNTPMessage_init True v 4 x (arrival + of_int TIME_OFFSET))\<lparr>time_offset := D\<rparr>"
  have "push_bit 6 0 OR push_bit 3 v OR 4 = 8 * v + 4"
    using v by (rule first_byte_facts)
  then have f: "push_bit 3 v OR 4 = 8 * v + 4"
    by simp
  have p: "packable ?m send \<longleftrightarrow> stamp_ok D arrival \<and> stamp_ok D send"
    using assms by (rule packable_client_mode_gen)
  show ?thesis
  proof (cases "packable ?m send")
    case True
    from get_reply_packable [OF True] True p show ?thesis
      by (simp add: SNTPMessage_init_def f stamp_def del: be_bytes.simps)
  next
    case False
    from get_reply_not_packable [OF False] False p show ?thesis
      by simp
  qed
qed

lemma get_reply_short:
  "get_reply ((SNTPMessage_init False 3 3 0 0)\<lparr>time_offset := D\<rparr>) send =
     (if (0 \<le> D \<and> D < 2 ^ 32) \<and> stamp_ok D send
      then Inr ([27, 0, 0, 0] @ replicate 20 0 @ be_bytes 8 0 @
                be_bytes 8 (D * 2 ^ 32) @ be_bytes 8 (stamp D send))
      else Inl StructError)"
proof -
  let ?m = "(SNTPMessage_init False 3 3 0 0)\<lparr>time_offset := D\<rparr>"
  have p: "packable ?m send \<longleftrightarrow> (0 \<le> D \<and> D < 2 ^ 32) \<and> stamp_ok D send"
    by (rule packable_short)
  show ?thesis
  proof (cases "packable ?m send")
    case True
    from get_reply_packable [OF True] True p show ?thesis
      by (simp add: SNTPMessage_init_def stamp_def format_time_of_int del: be_bytes.simps)
  next
    case False
    from get_reply_not_packable [OF False] False p show ?thesis
      by simp
  qed
qed

lemma serve_client_mode:
  assumes "48 \<le> length data" and "uint (data ! 0) AND 7 = 3"
  shows "serve D arrival send (data, addr) =
     (if stamp_ok D arrival \<and> stamp_ok D send
      then Inr (Some ([word_of_int (8 * drop_bit 3 (uint (data ! 0) AND 56) + 4), 0, 0, 0] @
                      replicate 20 0 @ be_bytes 8 (from_bytes_big (take 8 (drop 40 data))) @
                      be_bytes 8 (stamp D arrival) @ be_bytes 8 (stamp D send), addr))
      else Inl StructError)"
proof -
  let ?v = "drop_bit 3 (uint (data ! 0) AND 56)"
  let ?x = "from_bytes_big (take 8 (drop 40 data))"
  have "0 \<le> ?v" "?v < 8" "0 \<le> ?x" "?x < 2 ^ 64"
    by (rule version_bounds originate_bounds)+
  then have g: "get_reply ((SNTPMessage_init True ?v 4 ?x (arrival + of_int TIME_OFFSET))\<lparr>time_offset := D\<rparr>) send =
     (if stamp_ok D arrival \<and> stamp_ok D send
      then Inr ([word_of_int (8 * ?v + 4), 0, 0, 0] @ replicate 20 0 @ be_bytes 8 ?x @
                be_bytes 8 (stamp D arrival) @ be_bytes 8 (stamp D send))
      else Inl StructError)"
    by (rule get_reply_client_mode)
  show ?thesis
    unfolding serve_def receive_request_def reply_to_request_def
    using format_request_client_mode [OF assms] g
    by (simp add: format_request_take_1024 del: be_bytes.simps)
qed

lemma serve_short:
  assumes "length data < 48"
  shows "serve D arrival send (data, addr) =
     (if (0 \<le> D \<and> D < 2 ^ 32) \<and> stamp_ok D send
      then Inr (Some ([27, 0, 0, 0] @ replicate 20 0 @ be_bytes 8 0 @
                      be_bytes 8 (D * 2 ^ 32) @ be_bytes 8 (stamp D send), addr))
      else Inl StructError)"
  unfolding serve_def receive_request_def reply_to_request_def
  using format_request_short [OF assms] get_reply_short [of D send]
  by (simp add: format_request_take_1024 del: be_bytes.simps)

lemma serve_other_mode:
  assumes "48 \<le> length data" and "uint (data ! 0) AND 7 \<noteq> 3"
  shows "serve D arrival send (data, addr) = Inr None"
  unfolding serve_def receive_request_def reply_to_request_def
  using format_request_other_mode [OF assms]
  by (simp add: format_request_take_1024)

lemma from_bytes_big_be_bytes_8:
  "0 \<le> v \<Longrightarrow> v < 2 ^ 64 \<Longrightarrow> from_bytes_big (be_bytes 8 v) = v"
  using from_bytes_big_be_bytes [of v 8] by simp

lemma format_time_close: "\<bar>of_int (format_time x) / 2 ^ 32 - x\<bar> < 1 / 2 ^ 32"
proof -
  have "\<bar>of_int (format_time x) - x * 2 ^ 32\<bar> < 1"
    unfolding format_time_def by (rule py_int_close)
  then show ?thesis
    by (simp add: abs_less_iff field_simps)
qed



lemma first_byte_uint:
  fixes v :: int
  assumes "0 \<le> v" "v < 8"
  shows "uint (word_of_int (8 * v + 4) :: byte) = 8 * v + 4"
  using assms by (subst uint_word_of_int) simp

lemma serve_client_mode_ok:
  assumes "48 \<le> length data" and "uint (data ! 0) AND 7 = 3"
    and "stamp_ok D arrival" and "stamp_ok D send"
  shows "serve D arrival send (data, addr) =
     Inr (Some ([word_of_int (8 * drop_bit 3 (uint (data ! 0) AND 56) + 4), 0, 0, 0] @
                replicate 20 0 @ be_bytes 8 (from_bytes_big (take 8 (drop 40 data))) @
                be_bytes 8 (stamp D arrival) @ be_bytes 8 (stamp D send), addr))"
  using assms(3,4) unfolding serve_client_mode [OF assms(1,2)] by (simp only: simp_thms if_True)

lemma serve_client_mode_err:
  assumes "48 \<le> length data" and "uint (data ! 0) AND 7 = 3"
    and "\<not> (stamp_ok D arrival \<and> stamp_ok D send)"
  shows "serve D arrival send (data, addr) = Inl StructError"
  using assms(3) unfolding serve_client_mode [OF assms(1,2)] by (simp only: if_False)

lemma serve_short_ok:
  assumes "length data < 48" and "0 \<le> D" and "D < 2 ^ 32" and "stamp_ok D send"
  shows "serve D arrival send (data, addr) =
     Inr (Some ([27, 0, 0, 0] @ replicate 20 0 @ be_bytes 8 0 @
                be_bytes 8 (D * 2 ^ 32) @ be_bytes 8 (stamp D send), addr))"
  using assms(2-4) unfolding serve_short [OF assms(1)] by (simp only: simp_thms if_True)

lemma serve_short_err:
  assumes "length data < 48" and "\<not> ((0 \<le> D \<and> D < 2 ^ 32) \<and> stamp_ok D send)"
  shows "serve D arrival send (data, addr) = Inl StructError"
  using assms(2) unfolding serve_short [OF assms(1)] by (simp only: if_False)

lemma byte_uint_of_int:
  assumes "0 \<le> k" "k < 256"
  shows "uint (word_of_int k :: byte) = k"
  using assms by (subst uint_word_of_int) simp

lemma byte_sint_of_int:
  assumes "- 128 \<le> k" "k < 128"
  shows "sint (word_of_int k :: byte) = k"
proof -
  have "signed_take_bit 7 k = k"
    using assms by (intro signed_take_bit_int_eq_self) simp_all
  then show ?thesis
    by (simp add: signed_of_int)
qed

lemma frame_fields:
  assumes "0 \<le> x \<and> x < 2 ^ 64" "0 \<le> y \<and> y < 2 ^ 64" "0 \<le> z \<and> z < 2 ^ 64"
  shows "from_bytes_big (take 8 (drop 24 ([a, b, c, d] @ replicate 20 0 @
            be_bytes 8 x @ be_bytes 8 y @ be_bytes 8 z))) = x"
    and "from_bytes_big (take 8 (drop 32 ([a, b, c, d] @ replicate 20 0 @
            be_bytes 8 x @ be_bytes 8 y @ be_bytes 8 z))) = y"
    and "from_bytes_big (take 8 (drop 40 ([a, b, c, d] @ replicate 20 0 @
            be_bytes 8 x @ be_bytes 8 y @ be_bytes 8 z))) = z"
proof -
  let ?F = "[a, b, c, d] @ replicate 20 0 @ be_bytes 8 x @ be_bytes 8 y @ be_bytes 8 z"
  have l: "length (be_bytes 8 x) = 8" "length (be_bytes 8 y) = 8" "length (be_bytes 8 z) = 8"
    by (rule length_be_bytes)+
  have "take 8 (drop 24 ?F) = be_bytes 8 x"
    using l by (rule frame_slices)
  then show "from_bytes_big (take 8 (drop 24 ?F)) = x"
    using assms(1) by (simp only: from_bytes_big_be_bytes_8)
  have "take 8 (drop 32 ?F) = be_bytes 8 y"
    using l by (rule frame_slices)
  then show "from_bytes_big (take 8 (drop 32 ?F)) = y"
    using assms(2) by (simp only: from_bytes_big_be_bytes_8)
  have "take 8 (drop 40 ?F) = be_bytes 8 z"
    using l by (rule frame_slices)
  then show "from_bytes_big (take 8 (drop 40 ?F)) = z"
    using assms(3) by (simp only: from_bytes_big_be_bytes_8)
qed

lemma serve_client_mode_fields:
  assumes "48 \<le> length data" and "uint (data ! 0) AND 7 = 3"
    and "stamp_ok D arrival" and "stamp_ok D send"
  shows "\<exists>bs. serve D arrival send (data, addr) = Inr (Some (bs, addr)) \<and>
           length bs = 48 \<and>
           bs ! 0 = word_of_int (8 * drop_bit 3 (uint (data ! 0) AND 56) + 4) \<and>
           take 20 (drop 4 bs) = replicate 20 0 \<and>
           take 8 (drop 24 bs) = take 8 (drop 40 data) \<and>
           take 8 (drop 32 bs) = be_bytes 8 (stamp D arrival) \<and>
           take 8 (drop 40 bs) = be_bytes 8 (stamp D send) \<and>
           from_bytes_big (take 8 (drop 24 bs)) = from_bytes_big (take 8 (drop 40 data)) \<and>
           from_bytes_big (take 8 (drop 32 bs)) = stamp D arrival \<and>
           from_bytes_big (take 8 (drop 40 bs)) = stamp D send"
proof -
  let ?v = "drop_bit 3 (uint (data ! 0) AND 56)"
  let ?x = "from_bytes_big (take 8 (drop 40 data))"
  let ?bs = "[word_of_int (8 * ?v + 4), 0, 0, 0] @ replicate 20 0 @ be_bytes 8 ?x @
             be_bytes 8 (stamp D arrival) @ be_bytes 8 (stamp D send)"
  have l: "length (be_bytes 8 ?x) = 8" "length (be_bytes 8 (stamp D arrival)) = 8"
    "length (be_bytes 8 (stamp D send)) = 8"
    by (rule length_be_bytes)+
  have x: "0 \<le> ?x \<and> ?x < 2 ^ 64"
    using originate_bounds [of data] by simp
  have r: "0 \<le> stamp D arrival \<and> stamp D arrival < 2 ^ 64"
    and t: "0 \<le> stamp D send \<and> stamp D send < 2 ^ 64"
    using assms(3,4) by (simp_all only: stamp_ok_def)
  have "length (take 8 (drop 40 data)) = 8"
    using assms(1) by simp
  then have echo: "be_bytes 8 ?x = take 8 (drop 40 data)"
    using be_bytes_from_bytes_big [of "take 8 (drop 40 data)"] by (simp only:)
  have s: "serve D arrival send (data, addr) = Inr (Some (?bs, addr))"
    using assms by (rule serve_client_mode_ok)
  have "length ?bs = 48"
    using l by (rule frame_slices)
  moreover have "?bs ! 0 = word_of_int (8 * ?v + 4)"
    using l by (rule frame_slices)
  moreover have "take 20 (drop 4 ?bs) = replicate 20 0"
    using l by (rule frame_slices)
  moreover have "take 8 (drop 24 ?bs) = take 8 (drop 40 data)"
    using frame_slices(7) [OF l] by (simp only: echo)
  moreover have "take 8 (drop 32 ?bs) = be_bytes 8 (stamp D arrival)"
    using l by (rule frame_slices)
  moreover have "take 8 (drop 40 ?bs) = be_bytes 8 (stamp D send)"
    using l by (rule frame_slices)
  moreover have "from_bytes_big (take 8 (drop 24 ?bs)) = ?x"
    using x r t by (rule frame_fields)
  moreover have "from_bytes_big (take 8 (drop 32 ?bs)) = stamp D arrival"
    using x r t by (rule frame_fields)
  moreover have "from_bytes_big (take 8 (drop 40 ?bs)) = stamp D send"
    using x r t by (rule frame_fields)
  ultimately show ?thesis
    using s by blast
qed

lemma serve_short_fields:
  assumes "length data < 48" and "0 \<le> D" and "D < 2 ^ 32" and "stamp_ok D send"
  shows "\<exists>bs. serve D arrival send (data, addr) = Inr (Some (bs, addr)) \<and>
           length bs = 48 \<and> bs ! 0 = 27 \<and>
           from_bytes_big (take 8 (drop 24 bs)) = 0 \<and>
           from_bytes_big (take 8 (drop 32 bs)) = D * 2 ^ 32 \<and>
           from_bytes_big (take 8 (drop 40 bs)) = stamp D send"
proof -
  let ?bs = "[27, 0, 0, 0] @ replicate 20 0 @ be_bytes 8 0 @
             be_bytes 8 (D * 2 ^ 32) @ be_bytes 8 (stamp D send)"
  have l: "length (be_bytes 8 0) = 8" "length (be_bytes 8 (D * 2 ^ 32)) = 8"
    "length (be_bytes 8 (stamp D send)) = 8"
    by (rule length_be_bytes)+
  have x: "0 \<le> (0::int) \<and> (0::int) < 2 ^ 64"
    by simp
  have r: "0 \<le> D * 2 ^ 32 \<and> D * 2 ^ 32 < 2 ^ 64"
    using assms(2,3) by simp
  have t: "0 \<le> stamp D send \<and> stamp D send < 2 ^ 64"
    using assms(4) by (simp only: stamp_ok_def)
  have s: "serve D arrival send (data, addr) = Inr (Some (?bs, addr))"
    using assms by (rule serve_short_ok)
  have "length ?bs = 48"
    using l by (rule frame_slices)
  moreover have "?bs ! 0 = 27"
    using l by (rule frame_slices)
  moreover have "from_bytes_big (take 8 (drop 24 ?bs)) = 0"
    using x r t by (rule frame_fields)
  moreover have "from_bytes_big (take 8 (drop 32 ?bs)) = D * 2 ^ 32"
    using x r t by (rule frame_fields)
  moreover have "from_bytes_big (take 8 (drop 40 ?bs)) = stamp D send"
    using x r t by (rule frame_fields)
  ultimately show ?thesis
    using s by blast
qed

lemma get_reply_short_err:
  assumes "\<not> ((0 \<le> D \<and> D < 2 ^ 32) \<and> stamp_ok D send)"
  shows "get_reply ((SNTPMessage_init False 3 3 0 0)\<lparr>time_offset := D\<rparr>) send = Inl StructError"
  using assms unfolding get_reply_short by (simp only: if_False)

text \<open>Two stamps under a delay of 5 seconds, used to evaluate the model.\<close>

lemma stamp_5_1000: "stamp 5 1000 = 9487538969672417280"
  by (simp add: stamp_def format_time_def py_int_def TIME_OFFSET_def)

lemma stamp_5_1001: "stamp 5 1001 = 9487538973967384576"
  by (simp add: stamp_def format_time_def py_int_def TIME_OFFSET_def)

text \<open>Two stamps without delay, and a message that can be packed.\<close>

lemma stamp_0_2000: "stamp 0 2000 = 9487543243164876800"
  by (simp add: stamp_def format_time_def py_int_def TIME_OFFSET_def)

lemma stamp_0_2000_half: "stamp 0 (4001 / 2) = 9487543245312360448"
  by (simp add: stamp_def format_time_def py_int_def TIME_OFFSET_def)

lemma packable_example:
  "packable ((SNTPMessage_init True 3 4 0x0000000100000000 (1000 + of_int TIME_OFFSET))\<lparr>time_offset := 5\<rparr>) 1001"
  using stamp_5_1000 stamp_5_1001 unfolding stamp_def packable_def
  by (simp add: SNTPMessage_init_def)

section \<open>The claims\<close>

subsection \<open>Timestamps\<close>

text \<open>
  Claim C7 says that \<open>format_time\<close> returns \<open>floor (s * 2 ^ 32)\<close> for every real \<open>s\<close>,
  negative values included. \<^verbatim>\<open>int(...)\<close> rounds towards zero, so at \<open>s = - 2\<^sup>-\<^sup>3\<^sup>3\<close>, where
  \<open>s * 2 ^ 32 = - 1 / 2\<close>, the function returns \<open>0\<close> and the floor is \<open>- 1\<close>.
\<close>

theorem format_time_counterexample:
  "format_time (- 1 / 2 ^ 33) \<noteq> \<lfloor>(- 1 / 2 ^ 33) * 2 ^ 32 :: real\<rfloor>"
  by (simp add: format_time_def py_int_def)

text \<open>
  Claim C7, amended: \<open>format_time s\<close> is \<open>s * 2 ^ 32\<close> rounded towards zero, that is
  its floor for every \<open>s \<ge> 0\<close> and its ceiling for every \<open>s < 0\<close>.
\<close>

theorem format_time_truncates:
  "format_time s = (if 0 \<le> s then \<lfloor>s * 2 ^ 32\<rfloor> else \<lceil>s * 2 ^ 32\<rceil>)"
proof (cases "0 \<le> s")
  case True
  then have "\<not> s * 2 ^ 32 < 0"
    by (simp add: not_less)
  with True show ?thesis
    by (simp add: format_time_def py_int_def)
next
  case False
  then have "s * 2 ^ 32 < 0"
    by (simp add: mult_less_0_iff)
  with False show ?thesis
    by (simp add: format_time_def py_int_def ceiling_def)
qed

text \<open>
  Claim C8: for every seconds value \<open>t\<close> of the 32.32 range, \<open>0 \<le> t < 2 ^ 32\<close>, the
  encoded timestamp fits in 64 bits, and decoding it (dividing by \<open>2 ^ 32\<close>) gives \<open>t\<close>
  back within \<open>2\<^sup>-\<^sup>3\<^sup>2\<close> seconds.
\<close>

theorem timestamp_round_trip:
  assumes "0 \<le> t" and "t < 2 ^ 32"
  shows "0 \<le> format_time t \<and> format_time t < 2 ^ 64 \<and>
         \<bar>of_int (format_time t) / 2 ^ 32 - t\<bar> < 1 / 2 ^ 32"
proof -
  have nn: "0 \<le> t * 2 ^ 32"
    using assms(1) by simp
  then have eq: "format_time t = \<lfloor>t * 2 ^ 32\<rfloor>"
    by (simp add: format_time_def py_int_def not_less [symmetric])
  have lo: "0 \<le> format_time t"
    using nn by (simp add: eq)
  have "t * 2 ^ 32 < 2 ^ 32 * 2 ^ 32"
    using assms(2) by simp
  then have "t * 2 ^ 32 < of_int (2 ^ 64)"
    by simp
  then have hi: "format_time t < 2 ^ 64"
    unfolding eq by (simp only: floor_less_iff)
  have "\<bar>of_int (format_time t) / 2 ^ 32 - t\<bar> < 1 / 2 ^ 32"
    by (rule format_time_close)
  with lo hi show ?thesis
    by simp
qed

text \<open>The round trip at \<open>t = 1 / 3\<close>, which no 64-bit timestamp represents exactly.\<close>

theorem timestamp_round_trip_witness:
  "(0::real) \<le> 1 / 3 \<and> (1 / 3 :: real) < 2 ^ 32 \<and>
   format_time (1 / 3) = 1431655765 \<and>
   \<bar>of_int (format_time (1 / 3)) / 2 ^ 32 - 1 / 3\<bar> < (1 / 2 ^ 32 :: real)"
proof -
  have h: "(0::real) \<le> 1 / 3" "(1 / 3 :: real) < 2 ^ 32"
    by simp_all
  have v: "format_time (1 / 3) = 1431655765"
    by (simp add: format_time_def py_int_def)
  show ?thesis
    using h v timestamp_round_trip [OF h] by simp
qed

subsection \<open>Requests that are answered, requests that are dropped\<close>

text \<open>
  Claim C3: a datagram of at least 48 bytes whose mode bits (bits 0-2 of byte 0) are not 3
  decodes to the no-reply marker \<open>None\<close>, and the server sends nothing back.
\<close>

theorem other_mode_dropped:
  assumes "48 \<le> length data" and "uint (data ! 0) AND 7 \<noteq> 3"
  shows "format_request arrival data = None \<and> serve D arrival send (data, addr) = Inr None"
  using assms by (simp add: format_request_other_mode serve_other_mode)

text \<open>A datagram of 48 bytes with byte 0 equal to \<open>0x1C\<close> (mode 4) is dropped.\<close>

theorem other_mode_dropped_witness:
  "48 \<le> length [0x1C :: byte, 0,0,0,0,0,0,0, 0,0,0,0,0,0,0,0, 0,0,0,0,0,0,0,0,
      0,0,0,0,0,0,0,0, 0,0,0,0,0,0,0,0, 0,0,0,1,0,0,0,0] \<and>
   uint ([0x1C :: byte, 0,0,0,0,0,0,0, 0,0,0,0,0,0,0,0, 0,0,0,0,0,0,0,0,
      0,0,0,0,0,0,0,0, 0,0,0,0,0,0,0,0, 0,0,0,1,0,0,0,0] ! 0) AND 7 \<noteq> 3 \<and>
   serve 5 1000 1001 ([0x1C, 0,0,0,0,0,0,0, 0,0,0,0,0,0,0,0, 0,0,0,0,0,0,0,0,
      0,0,0,0,0,0,0,0, 0,0,0,0,0,0,0,0, 0,0,0,1,0,0,0,0], ''client'') = Inr None"
proof -
  let ?data = "[0x1C :: byte, 0,0,0,0,0,0,0, 0,0,0,0,0,0,0,0, 0,0,0,0,0,0,0,0,
      0,0,0,0,0,0,0,0, 0,0,0,0,0,0,0,0, 0,0,0,1,0,0,0,0]"
  have h: "48 \<le> length ?data" "uint (?data ! 0) AND 7 \<noteq> 3"
    by simp_all
  show ?thesis
    using h other_mode_dropped [OF h, of 1000 5 1001 "''client''"] by simp
qed

text \<open>
  Claim C1: a datagram of at least 48 bytes whose mode bits are 3 and whose bytes 40-47
  hold the big-endian value \<open>X\<close> is answered by a reply of 48 bytes whose originate field
  (bytes 24-31) is \<open>X\<close> and whose mode bits are 4. The reply is sent exactly when the two
  timestamps the server computes fit the format code \<open>Q\<close>; otherwise \<open>get_reply\<close> raises
  and nothing is sent.
\<close>

theorem valid_request_echo:
  assumes "48 \<le> length data" and "uint (data ! 0) AND 7 = 3"
  shows "if stamp_ok D arrival \<and> stamp_ok D send
         then \<exists>bs. serve D arrival send (data, addr) = Inr (Some (bs, addr)) \<and>
                length bs = 48 \<and>
                from_bytes_big (take 8 (drop 24 bs)) = from_bytes_big (take 8 (drop 40 data)) \<and>
                uint (bs ! 0) AND 7 = 4
         else serve D arrival send (data, addr) = Inl StructError"
proof -
  let ?v = "drop_bit 3 (uint (data ! 0) AND 56)"
  let ?x = "from_bytes_big (take 8 (drop 40 data))"
  let ?bs = "[word_of_int (8 * ?v + 4), 0, 0, 0] @ replicate 20 0 @ be_bytes 8 ?x @
             be_bytes 8 (stamp D arrival) @ be_bytes 8 (stamp D send)"
  have v: "0 \<le> ?v" "?v < 8"
    by (rule version_bounds)+
  have x: "0 \<le> ?x" "?x < 2 ^ 64"
    by (rule originate_bounds)+
  have len: "length ?bs = 48"
    by (rule frame_slices) (rule length_be_bytes)+
  have "take 8 (drop 24 ?bs) = be_bytes 8 ?x"
    by (rule frame_slices) (rule length_be_bytes)+
  then have orig: "from_bytes_big (take 8 (drop 24 ?bs)) = ?x"
    using x by (simp only: from_bytes_big_be_bytes_8)
  have "?bs ! 0 = word_of_int (8 * ?v + 4)"
    by (rule frame_slices) (rule length_be_bytes)+
  then have "uint (?bs ! 0) = 8 * ?v + 4"
    using v by (simp only: first_byte_uint)
  then have mo: "uint (?bs ! 0) AND 7 = 4"
    using v by (simp only: first_byte_facts)
  show ?thesis
  proof (cases "stamp_ok D arrival \<and> stamp_ok D send")
    case True
    then have "serve D arrival send (data, addr) = Inr (Some (?bs, addr))"
      using assms by (intro serve_client_mode_ok) simp_all
    with len orig mo have "\<exists>bs. serve D arrival send (data, addr) = Inr (Some (bs, addr)) \<and>
                length bs = 48 \<and>
                from_bytes_big (take 8 (drop 24 bs)) = ?x \<and>
                uint (bs ! 0) AND 7 = 4"
      by blast
    with True show ?thesis by simp
  next
    case False
    then have "serve D arrival send (data, addr) = Inl StructError"
      using assms by (intro serve_client_mode_err)
    with False show ?thesis by simp
  qed
qed

text \<open>
  The request of the end-to-end scenario (byte 0 \<open>0x1B\<close>, bytes 40-47
  \<open>0x0000000100000000\<close>), received at clock reading 1000 and answered at 1001 under a
  delay of 5 seconds.
\<close>

theorem valid_request_echo_witness:
  "48 \<le> length [0x1B :: byte, 0,0,0,0,0,0,0, 0,0,0,0,0,0,0,0, 0,0,0,0,0,0,0,0,
      0,0,0,0,0,0,0,0, 0,0,0,0,0,0,0,0, 0,0,0,1,0,0,0,0] \<and>
   uint ([0x1B :: byte, 0,0,0,0,0,0,0, 0,0,0,0,0,0,0,0, 0,0,0,0,0,0,0,0,
      0,0,0,0,0,0,0,0, 0,0,0,0,0,0,0,0, 0,0,0,1,0,0,0,0] ! 0) AND 7 = 3 \<and>
   stamp_ok 5 1000 \<and> stamp_ok 5 1001 \<and>
   (\<exists>bs. serve 5 1000 1001 ([0x1B, 0,0,0,0,0,0,0, 0,0,0,0,0,0,0,0, 0,0,0,0,0,0,0,0,
      0,0,0,0,0,0,0,0, 0,0,0,0,0,0,0,0, 0,0,0,1,0,0,0,0], ''client'') = Inr (Some (bs, ''client'')) \<and>
      length bs = 48 \<and> from_bytes_big (take 8 (drop 24 bs)) = 0x0000000100000000 \<and>
      uint (bs ! 0) AND 7 = 4)"
proof -
  let ?data = "[0x1B :: byte, 0,0,0,0,0,0,0, 0,0,0,0,0,0,0,0, 0,0,0,0,0,0,0,0,
      0,0,0,0,0,0,0,0, 0,0,0,0,0,0,0,0, 0,0,0,1,0,0,0,0]"
  have h: "48 \<le> length ?data" "uint (?data ! 0) AND 7 = 3"
    by simp_all
  have ok: "stamp_ok 5 1000" "stamp_ok 5 1001"
    by (simp_all add: stamp_ok_def stamp_5_1000 stamp_5_1001)
  have x: "from_bytes_big (take 8 (drop 40 ?data)) = 0x0000000100000000"
    by (simp add: from_bytes_big_def)
  show ?thesis
    using h ok valid_request_echo [OF h, of 5 1000 1001 "''client''"]
    unfolding x by simp
qed

subsection \<open>The timestamps of a reply\<close>






subsection \<open>The layout of the frame\<close>

text \<open>
  Claim C9 places the three timestamps in bytes 20-47 of the frame, the originate
  timestamp at byte offset 40. In a reply the program produces, bytes 20-23 are the last
  of the five zero words, the originate timestamp is at offset 24, and offset 40 holds
  the transmit timestamp: here the request carries \<open>01 02 ... 08\<close> at offset 40, and the
  reply carries it at offset 24 and something else at offset 40.
\<close>

theorem timestamp_offsets_counterexample:
  "serve 0 2000 (4001 / 2) ([0x23, 0,0,0,0,0,0,0, 0,0,0,0,0,0,0,0, 0,0,0,0,0,0,0,0,
      0,0,0,0,0,0,0,0, 0,0,0,0,0,0,0,0, 1,2,3,4,5,6,7,8], ''client'')
   = Inr (Some ([0x24, 0,0,0,0,0,0,0, 0,0,0,0,0,0,0,0, 0,0,0,0,0,0,0,0,
      1,2,3,4,5,6,7,8, 131,170,134,80,0,0,0,0, 131,170,134,80,128,0,0,0], ''client'')) \<and>
   take 8 (drop 40 [0x24 :: byte, 0,0,0,0,0,0,0, 0,0,0,0,0,0,0,0, 0,0,0,0,0,0,0,0,
      1,2,3,4,5,6,7,8, 131,170,134,80,0,0,0,0, 131,170,134,80,128,0,0,0])
     \<noteq> [1,2,3,4,5,6,7,8] \<and>
   take 8 (drop 24 [0x24 :: byte, 0,0,0,0,0,0,0, 0,0,0,0,0,0,0,0, 0,0,0,0,0,0,0,0,
      1,2,3,4,5,6,7,8, 131,170,134,80,0,0,0,0, 131,170,134,80,128,0,0,0])
     = [1,2,3,4,5,6,7,8] \<and>
   take 4 (drop 20 [0x24 :: byte, 0,0,0,0,0,0,0, 0,0,0,0,0,0,0,0, 0,0,0,0,0,0,0,0,
      1,2,3,4,5,6,7,8, 131,170,134,80,0,0,0,0, 131,170,134,80,128,0,0,0])
     = [0,0,0,0]"
  by code_simp

text \<open>
  Claim C9, amended: in the 48-byte reply the program produces, the three 64-bit
  big-endian timestamps occupy bytes 24-47, originate at offset 24, receive at offset 32
  and transmit at offset 40, after 20 zero bytes at offsets 4-23; the originate bytes are
  the bytes 40-47 of the request the program consumed.
\<close>

theorem timestamp_offsets:
  assumes "48 \<le> length data" and "uint (data ! 0) AND 7 = 3"
  shows "if stamp_ok D arrival \<and> stamp_ok D send
         then \<exists>bs. serve D arrival send (data, addr) = Inr (Some (bs, addr)) \<and>
                length bs = 48 \<and>
                take 20 (drop 4 bs) = replicate 20 0 \<and>
                take 8 (drop 24 bs) = take 8 (drop 40 data) \<and>
                take 8 (drop 32 bs) = be_bytes 8 (stamp D arrival) \<and>
                take 8 (drop 40 bs) = be_bytes 8 (stamp D send)
         else serve D arrival send (data, addr) = Inl StructError"
proof (cases "stamp_ok D arrival \<and> stamp_ok D send")
  case True
  then have "\<exists>bs. serve D arrival send (data, addr) = Inr (Some (bs, addr)) \<and>
                length bs = 48 \<and>
                take 20 (drop 4 bs) = replicate 20 0 \<and>
                take 8 (drop 24 bs) = take 8 (drop 40 data) \<and>
                take 8 (drop 32 bs) = be_bytes 8 (stamp D arrival) \<and>
                take 8 (drop 40 bs) = be_bytes 8 (stamp D send)"
    using serve_client_mode_fields [OF assms, of D arrival send addr] by blast
  with True show ?thesis by simp
next
  case False
  then have "serve D arrival send (data, addr) = Inl StructError"
    using assms by (intro serve_client_mode_err)
  with False show ?thesis by simp
qed

theorem timestamp_offsets_witness:
  "48 \<le> length [0x23 :: byte, 0,0,0,0,0,0,0, 0,0,0,0,0,0,0,0, 0,0,0,0,0,0,0,0,
      0,0,0,0,0,0,0,0, 0,0,0,0,0,0,0,0, 1,2,3,4,5,6,7,8] \<and>
   uint ([0x23 :: byte, 0,0,0,0,0,0,0, 0,0,0,0,0,0,0,0, 0,0,0,0,0,0,0,0,
      0,0,0,0,0,0,0,0, 0,0,0,0,0,0,0,0, 1,2,3,4,5,6,7,8] ! 0) AND 7 = 3 \<and>
   stamp_ok 0 2000 \<and> stamp_ok 0 (4001 / 2) \<and>
   (\<exists>bs. serve 0 2000 (4001 / 2) ([0x23, 0,0,0,0,0,0,0, 0,0,0,0,0,0,0,0, 0,0,0,0,0,0,0,0,
      0,0,0,0,0,0,0,0, 0,0,0,0,0,0,0,0, 1,2,3,4,5,6,7,8], ''client'') = Inr (Some (bs, ''client'')) \<and>
      length bs = 48 \<and>
      take 20 (drop 4 bs) = replicate 20 0 \<and>
      take 8 (drop 24 bs) = [1,2,3,4,5,6,7,8] \<and>
      take 8 (drop 32 bs) = be_bytes 8 9487543243164876800 \<and>
      take 8 (drop 40 bs) = be_bytes 8 9487543245312360448)"
proof -
  let ?data = "[0x23 :: byte, 0,0,0,0,0,0,0, 0,0,0,0,0,0,0,0, 0,0,0,0,0,0,0,0,
      0,0,0,0,0,0,0,0, 0,0,0,0,0,0,0,0, 1,2,3,4,5,6,7,8]"
  have h: "48 \<le> length ?data" "uint (?data ! 0) AND 7 = 3"
    by simp_all
  have ok: "stamp_ok 0 2000" "stamp_ok 0 (4001 / 2)"
    by (simp_all add: stamp_ok_def stamp_0_2000 stamp_0_2000_half)
  have "\<exists>bs. serve 0 2000 (4001 / 2) (?data, ''client'') = Inr (Some (bs, ''client'')) \<and>
                length bs = 48 \<and>
                take 20 (drop 4 bs) = replicate 20 0 \<and>
                take 8 (drop 24 bs) = take 8 (drop 40 ?data) \<and>
                take 8 (drop 32 bs) = be_bytes 8 (stamp 0 2000) \<and>
                take 8 (drop 40 bs) = be_bytes 8 (stamp 0 (4001 / 2))"
    using ok timestamp_offsets [OF h, of 0 2000 "4001 / 2" "''client''"] by (simp only: simp_thms if_True)
  then show ?thesis
    using h ok unfolding stamp_0_2000 stamp_0_2000_half by (simp del: be_bytes.simps)
qed

text \<open>
  Claim C2 says that encoding produces 48 bytes for every reply message. \<open>get_reply\<close>
  raises \<open>struct.error\<close> when a value is out of the range of its format code: for the
  message \<open>format_request\<close> builds from a short datagram, under a delay of \<open>- 1\<close>, the
  receive timestamp is negative.
\<close>

theorem get_reply_counterexample:
  "format_request 1000 [0x1B, 0, 0, 0] = Some (SNTPMessage_init False 3 3 0 0) \<and>
   get_reply ((SNTPMessage_init False 3 3 0 0)\<lparr>time_offset := - 1\<rparr>) 1001 = Inl StructError"
  by code_simp

text \<open>
  Claim C2, amended: for every message and clock reading of which each packed value is
  in the range of its format code (\<open>packable\<close>), \<open>get_reply\<close> produces exactly 48 bytes:
  one byte \<open>leap_indicator << 6 | version << 3 | mode\<close>, one byte stratum, one byte poll,
  one signed byte precision, five 32-bit words that are all zero (20 zero bytes), then
  the originate, receive and transmit timestamps as unsigned 64-bit big-endian words.
  For every other message it raises \<open>struct.error\<close>.
\<close>

theorem get_reply_layout:
  "if packable m now
   then \<exists>bs. get_reply m now = Inr bs \<and> length bs = 48 \<and>
          uint (bs ! 0) = (push_bit 6 (leap_indicator m) OR push_bit 3 (version m) OR mode m) \<and>
          uint (bs ! 1) = stratum m \<and>
          uint (bs ! 2) = poll m \<and>
          sint (bs ! 3) = precision m \<and>
          take 20 (drop 4 bs) = replicate 20 0 \<and>
          from_bytes_big (take 8 (drop 24 bs)) = originate_time m \<and>
          from_bytes_big (take 8 (drop 32 bs))
            = format_time (receive_time m + of_int (time_offset m)) \<and>
          from_bytes_big (take 8 (drop 40 bs))
            = format_time (now + of_int TIME_OFFSET + of_int (time_offset m))
   else get_reply m now = Inl StructError"
proof (cases "packable m now")
  case True
  let ?f = "push_bit 6 (leap_indicator m) OR push_bit 3 (version m) OR mode m"
  let ?r = "format_time (receive_time m + of_int (time_offset m))"
  let ?t = "format_time (now + of_int TIME_OFFSET + of_int (time_offset m))"
  let ?bs = "[word_of_int ?f, word_of_int (stratum m), word_of_int (poll m),
              word_of_int (precision m)] @ replicate 20 0 @
             be_bytes 8 (originate_time m) @ be_bytes 8 ?r @ be_bytes 8 ?t"
  have f: "0 \<le> ?f" "?f < 256" and st: "0 \<le> stratum m" "stratum m < 256"
    and po: "0 \<le> poll m" "poll m < 256" and pr: "- 128 \<le> precision m" "precision m < 128"
    and x: "0 \<le> originate_time m \<and> originate_time m < 2 ^ 64"
    and r: "0 \<le> ?r \<and> ?r < 2 ^ 64" and t: "0 \<le> ?t \<and> ?t < 2 ^ 64"
    using True unfolding packable_def by blast+
  have l: "length (be_bytes 8 (originate_time m)) = 8" "length (be_bytes 8 ?r) = 8"
    "length (be_bytes 8 ?t) = 8"
    by (rule length_be_bytes)+
  have g: "get_reply m now = Inr ?bs"
    using True by (rule get_reply_packable)
  have "length ?bs = 48"
    using l by (rule frame_slices)
  moreover have "uint (?bs ! 0) = ?f"
    unfolding frame_slices(2) [OF l] using f by (rule byte_uint_of_int)
  moreover have "uint (?bs ! 1) = stratum m"
    unfolding frame_slices(3) [OF l] using st by (rule byte_uint_of_int)
  moreover have "uint (?bs ! 2) = poll m"
    unfolding frame_slices(4) [OF l] using po by (rule byte_uint_of_int)
  moreover have "sint (?bs ! 3) = precision m"
    unfolding frame_slices(5) [OF l] using pr by (rule byte_sint_of_int)
  moreover have "take 20 (drop 4 ?bs) = replicate 20 0"
    using l by (rule frame_slices)
  moreover have "from_bytes_big (take 8 (drop 24 ?bs)) = originate_time m"
    using x r t by (rule frame_fields)
  moreover have "from_bytes_big (take 8 (drop 32 ?bs)) = ?r"
    using x r t by (rule frame_fields)
  moreover have "from_bytes_big (take 8 (drop 40 ?bs)) = ?t"
    using x r t by (rule frame_fields)
  ultimately have "\<exists>bs. get_reply m now = Inr bs \<and> length bs = 48 \<and>
          uint (bs ! 0) = ?f \<and> uint (bs ! 1) = stratum m \<and> uint (bs ! 2) = poll m \<and>
          sint (bs ! 3) = precision m \<and> take 20 (drop 4 bs) = replicate 20 0 \<and>
          from_bytes_big (take 8 (drop 24 bs)) = originate_time m \<and>
          from_bytes_big (take 8 (drop 32 bs)) = ?r \<and>
          from_bytes_big (take 8 (drop 40 bs)) = ?t"
    using g by blast
  with True show ?thesis by (simp only: if_True)
next
  case False
  then have "get_reply m now = Inl StructError"
    by (rule get_reply_not_packable)
  with False show ?thesis by (simp only: if_False)
qed

theorem get_reply_layout_witness:
  "packable ((SNTPMessage_init True 3 4 0x0000000100000000 (1000 + of_int TIME_OFFSET))\<lparr>time_offset := 5\<rparr>) 1001 \<and>
   (\<exists>bs. get_reply ((SNTPMessage_init True 3 4 0x0000000100000000 (1000 + of_int TIME_OFFSET))\<lparr>time_offset := 5\<rparr>) 1001 = Inr bs \<and>
      length bs = 48 \<and> uint (bs ! 0) = 28 \<and> uint (bs ! 1) = 0 \<and> uint (bs ! 2) = 0 \<and>
      sint (bs ! 3) = 0 \<and> take 20 (drop 4 bs) = replicate 20 0 \<and>
      from_bytes_big (take 8 (drop 24 bs)) = 0x0000000100000000 \<and>
      from_bytes_big (take 8 (drop 32 bs)) = 9487538969672417280 \<and>
      from_bytes_big (take 8 (drop 40 bs)) = 9487538973967384576)"
proof -
  let ?m = "(SNTPMessage_init True 3 4 0x0000000100000000 (1000 + of_int TIME_OFFSET))\<lparr>time_offset := 5\<rparr>"
  have p: "packable ?m 1001"
    by (rule packable_example)
  have v: "push_bit 6 (leap_indicator ?m) OR push_bit 3 (version ?m) OR mode ?m = 28"
    "stratum ?m = 0" "poll ?m = 0" "precision ?m = 0" "originate_time ?m = 0x0000000100000000"
    "format_time (receive_time ?m + of_int (time_offset ?m)) = 9487538969672417280"
    "format_time (1001 + of_int TIME_OFFSET + of_int (time_offset ?m)) = 9487538973967384576"
    using stamp_5_1000 stamp_5_1001 unfolding stamp_def
    by (simp_all add: SNTPMessage_init_def)
  show ?thesis
    using p get_reply_layout [of ?m 1001] unfolding v by (simp only: simp_thms if_True)
qed

subsection \<open>Datagrams shorter than 48 bytes\<close>

text \<open>
  Claim C4 says that the reply to a datagram shorter than 48 bytes has a receive field of
  zero. The delay is added to the receive time of every message: under a delay of 5
  seconds the receive field of the reply to a 4-byte datagram is \<open>5 * 2 ^ 32\<close>.
\<close>

theorem short_datagram_counterexample:
  "length [0x1B :: byte, 0, 0, 0] < 48 \<and>
   serve 5 1000 1001 ([0x1B, 0, 0, 0], ''client'')
   = Inr (Some ([27, 0,0,0,0,0,0,0, 0,0,0,0,0,0,0,0, 0,0,0,0,0,0,0,0,
      0,0,0,0,0,0,0,0, 0,0,0,5,0,0,0,0, 131,170,130,110,0,0,0,0], ''client'')) \<and>
   from_bytes_big (take 8 (drop 32 [27 :: byte, 0,0,0,0,0,0,0, 0,0,0,0,0,0,0,0,
      0,0,0,0,0,0,0,0, 0,0,0,0,0,0,0,0, 0,0,0,5,0,0,0,0, 131,170,130,110,0,0,0,0]))
     \<noteq> 0"
  by code_simp

text \<open>
  Claim C4, amended: for every datagram shorter than 48 bytes, under a delay \<open>D\<close> with
  \<open>0 \<le> D < 2 ^ 32\<close> and a transmit stamp that fits 64 bits, the server sends a 48-byte
  reply whose originate field is zero and whose receive field is \<open>D * 2 ^ 32\<close> (zero when
  \<open>D = 0\<close>); under any other delay \<open>get_reply\<close> raises and no reply is sent.
\<close>

theorem short_datagram_reply:
  assumes "length data < 48"
  shows "if (0 \<le> D \<and> D < 2 ^ 32) \<and> stamp_ok D send
         then \<exists>bs. serve D arrival send (data, addr) = Inr (Some (bs, addr)) \<and>
                length bs = 48 \<and>
                from_bytes_big (take 8 (drop 24 bs)) = 0 \<and>
                from_bytes_big (take 8 (drop 32 bs)) = D * 2 ^ 32
         else serve D arrival send (data, addr) = Inl StructError"
proof (cases "(0 \<le> D \<and> D < 2 ^ 32) \<and> stamp_ok D send")
  case True
  then have "\<exists>bs. serve D arrival send (data, addr) = Inr (Some (bs, addr)) \<and>
                length bs = 48 \<and>
                from_bytes_big (take 8 (drop 24 bs)) = 0 \<and>
                from_bytes_big (take 8 (drop 32 bs)) = D * 2 ^ 32"
    using serve_short_fields [OF assms, of D send arrival addr] by blast
  with True show ?thesis by simp
next
  case False
  then have "serve D arrival send (data, addr) = Inl StructError"
    using assms by (intro serve_short_err)
  with False show ?thesis by simp
qed

theorem short_datagram_reply_witness:
  "length [0x1B :: byte, 0, 0, 0] < 48 \<and> (0::int) \<le> 5 \<and> (5::int) < 2 ^ 32 \<and> stamp_ok 5 1001 \<and>
   (\<exists>bs. serve 5 1000 1001 ([0x1B, 0, 0, 0], ''client'') = Inr (Some (bs, ''client'')) \<and>
      length bs = 48 \<and>
      from_bytes_big (take 8 (drop 24 bs)) = 0 \<and>
      from_bytes_big (take 8 (drop 32 bs)) = 5 * 2 ^ 32)"
proof -
  have h: "length [0x1B :: byte, 0, 0, 0] < 48"
    by simp
  have ok: "stamp_ok 5 1001"
    by (simp add: stamp_ok_def stamp_5_1001)
  show ?thesis
    using h ok short_datagram_reply [OF h, of 5 1001 1000 "''client''"] by simp
qed

text \<open>
  Claim C10: the message decoded from a datagram shorter than 48 bytes has receive time
  0; under a negative delay its receive timestamp is negative, \<open>get_reply\<close> raises
  \<open>struct.error\<close> and no reply is produced. Under a delay \<open>D \<ge> 0\<close> the receive timestamp
  is not negative, so this cause of the error is excluded; a 48-byte reply is then
  produced exactly when \<open>D < 2 ^ 32\<close> and the transmit stamp fits 64 bits.
\<close>

theorem short_datagram_negative_delay:
  assumes "length data < 48"
  shows "\<exists>m. format_request arrival data = Some m \<and> receive_time m = 0 \<and>
     (if D < 0
      then format_time (receive_time m + of_int D) < 0 \<and>
           get_reply (m\<lparr>time_offset := D\<rparr>) send = Inl StructError \<and>
           serve D arrival send (data, addr) = Inl StructError
      else 0 \<le> format_time (receive_time m + of_int D) \<and>
           (if D < 2 ^ 32 \<and> stamp_ok D send
            then \<exists>bs. serve D arrival send (data, addr) = Inr (Some (bs, addr)) \<and> length bs = 48
            else serve D arrival send (data, addr) = Inl StructError))"
proof -
  let ?m = "SNTPMessage_init False 3 3 0 0"
  have m: "format_request arrival data = Some ?m"
    using assms by (rule format_request_short)
  have z: "receive_time ?m = 0"
    by (simp add: SNTPMessage_init_def)
  have ft: "format_time (receive_time ?m + of_int D) = D * 2 ^ 32"
    unfolding z using format_time_of_int [of D] by simp
  have body: "if D < 0
      then format_time (receive_time ?m + of_int D) < 0 \<and>
           get_reply (?m\<lparr>time_offset := D\<rparr>) send = Inl StructError \<and>
           serve D arrival send (data, addr) = Inl StructError
      else 0 \<le> format_time (receive_time ?m + of_int D) \<and>
           (if D < 2 ^ 32 \<and> stamp_ok D send
            then \<exists>bs. serve D arrival send (data, addr) = Inr (Some (bs, addr)) \<and> length bs = 48
            else serve D arrival send (data, addr) = Inl StructError)"
  proof (cases "D < 0")
    case True
    then have n: "\<not> ((0 \<le> D \<and> D < 2 ^ 32) \<and> stamp_ok D send)"
      by simp
    have "D * 2 ^ 32 < 0"
      using True by (simp add: mult_less_0_iff)
    moreover have "get_reply (?m\<lparr>time_offset := D\<rparr>) send = Inl StructError"
      using n by (rule get_reply_short_err)
    moreover have "serve D arrival send (data, addr) = Inl StructError"
      using assms n by (rule serve_short_err)
    ultimately show ?thesis
      using True unfolding ft by simp
  next
    case False
    then have nn: "0 \<le> D"
      by simp
    then have p: "0 \<le> D * 2 ^ 32"
      by simp
    show ?thesis
    proof (cases "D < 2 ^ 32 \<and> stamp_ok D send")
      case True
      then have "\<exists>bs. serve D arrival send (data, addr) = Inr (Some (bs, addr)) \<and> length bs = 48"
        using serve_short_fields [OF assms nn, of send arrival addr] by blast
      with True False p show ?thesis
        unfolding ft by simp
    next
      case no: False
      then have "\<not> ((0 \<le> D \<and> D < 2 ^ 32) \<and> stamp_ok D send)"
        by simp
      with assms have "serve D arrival send (data, addr) = Inl StructError"
        by (rule serve_short_err)
      with no False p show ?thesis
        unfolding ft by simp
    qed
  qed
  from m z body show ?thesis
    by blast
qed

theorem short_datagram_negative_delay_witness:
  "length [0x1B :: byte, 0, 0, 0] < 48 \<and> (- 1 :: int) < 0 \<and>
   (\<exists>m. format_request 1000 [0x1B, 0, 0, 0] = Some m \<and> receive_time m = 0 \<and>
      format_time (receive_time m + of_int (- 1)) < 0 \<and>
      get_reply (m\<lparr>time_offset := - 1\<rparr>) 1001 = Inl StructError \<and>
      serve (- 1) 1000 1001 ([0x1B, 0, 0, 0], ''client'') = Inl StructError)"
proof -
  have h: "length [0x1B :: byte, 0, 0, 0] < 48"
    by simp
  show ?thesis
    using h short_datagram_negative_delay [OF h, of 1000 "- 1" 1001 "''client''"] by simp
qed

end
